theory Spec2Isabelle
  imports Main "HOL-Library.Word"
begin

section \<open>Tokens (token/token.go)\<close>

text \<open>
  \<^verbatim>\<open>type TokenType string\<close> and \<^verbatim>\<open>type Token struct { Type TokenType; Literal string }\<close>.
\<close>

type_synonym TokenType = string

record Token =
  Type :: TokenType
  Literal :: string

text \<open>The token kinds that \<^verbatim>\<open>LookuptIdent\<close> can return.\<close>

definition IDENT :: TokenType where "IDENT = ''IDENT''"
definition FUNCTION :: TokenType where "FUNCTION = ''FUNCTION''"
definition LET :: TokenType where "LET = ''LET''"
definition TRUE :: TokenType where "TRUE = ''TRUE''"
definition FALSE :: TokenType where "FALSE = ''FALSE''"
definition IF :: TokenType where "IF = ''IF''"
definition ELSE :: TokenType where "ELSE = ''ELSE''"
definition RETURN :: TokenType where "RETURN = ''RETURN''"

text \<open>The package-level table \<^verbatim>\<open>var keywords = map[string]TokenType{...}\<close>.\<close>

definition "keywords" :: "string \<rightharpoonup> TokenType" where
  "keywords = map_of
     [(''fn'', FUNCTION),
      (''let'', LET),
      (''true'', TRUE),
      (''false'', FALSE),
      (''if'', IF),
      (''else'', ELSE),
      (''return'', RETURN)]"

text \<open>
  \<^verbatim>\<open>if ttype, ok := keywords[ident]; ok { return ttype }; return IDENT\<close>
\<close>

definition LookuptIdent :: "string \<Rightarrow> TokenType" where
  "LookuptIdent ident = (case keywords ident of Some ttype \<Rightarrow> ttype | None \<Rightarrow> IDENT)"


section \<open>The syntax tree (package ast)\<close>

text \<open>
  A method call through a nil pointer or a nil interface value is a run-time panic in Go
  (invalid memory address or nil pointer dereference). Every \<^verbatim>\<open>String\<close> and
  \<^verbatim>\<open>TokenLiteral\<close> method of the package reads a field of its receiver, so none of
  them survives a nil receiver. A result is the panic or the returned string.
\<close>

datatype panic = NilDereference

text \<open>\<^verbatim>\<open>type Identifier struct { Token token.Token; Value string }\<close>\<close>

datatype Identifier = Identifier Token string

text \<open>
  The interfaces \<^verbatim>\<open>Statement\<close> and \<^verbatim>\<open>Expression\<close> and the struct
  \<^verbatim>\<open>BlockStatement\<close>. A field of interface type or of pointer type is an
  \<open>option\<close>: \<open>None\<close> is Go's \<^verbatim>\<open>nil\<close>. A slice is a list (the nil slice is the
  empty list: \<^verbatim>\<open>range\<close> runs zero times over both). The constructors
  \<open>NilStatement\<close> and \<open>NilExpression\<close> stand for an interface value that holds a nil
  pointer of one of the node types: it compares unequal to \<^verbatim>\<open>nil\<close>, and every method
  called on it panics.

  \<^verbatim>\<open>HashLiteral.Pairs\<close> is a Go map. Its entries are listed in the order in which the
  \<^verbatim>\<open>range\<close> statement of \<^verbatim>\<open>String\<close> visits them (Go leaves that order open).
\<close>

datatype Statement =
    NilStatement
  | LetStatement Token "Identifier option" "Expression option"
  | ReturnStatement Token "Expression option"
  | ExpressionStatement Token "Expression option"
  | Block BlockStatement
and Expression =
    NilExpression
  | Ident Identifier
  | IntegerLiteral Token "64 word"
  | PrefixExpression Token string "Expression option"
  | InfixExpression Token "Expression option" string "Expression option"
  | Boolean Token bool
  | IfExpression Token "Expression option" "BlockStatement option" "BlockStatement option"
  | FunctionLiteral Token "Identifier option list" "BlockStatement option"
  | CallExpression Token "Expression option" "Expression option list"
  | StringLiteral Token string
  | ArrayLiteral Token "Expression option list"
  | IndexExpression Token "Expression option" "Expression option"
  | HashLiteral Token "(Expression option \<times> Expression option) list"
and BlockStatement =
    BlockStatement Token "Statement option list"

text \<open>\<^verbatim>\<open>type Program struct { Statements []Statement }\<close>\<close>

datatype Program = Program "Statement option list"

subsection \<open>Buffers, loops and \<^verbatim>\<open>strings.Join\<close>\<close>

text \<open>
  A run of \<^verbatim>\<open>out.WriteString(e)\<close> calls on a \<^verbatim>\<open>bytes.Buffer\<close>: the arguments are
  evaluated and appended from left to right, and the first panic ends the run.
\<close>

fun WriteStrings :: "string \<Rightarrow> (panic + string) list \<Rightarrow> panic + string" where
  "WriteStrings out [] = Inr out"
| "WriteStrings out (Inl e # rs) = Inl e"
| "WriteStrings out (Inr s # rs) = WriteStrings (out @ s) rs"

text \<open>
  \<^verbatim>\<open>for _, p := range ps { elems = append(elems, p.String()) }\<close>
\<close>

fun Appends :: "string list \<Rightarrow> (panic + string) list \<Rightarrow> panic + string list" where
  "Appends elems [] = Inr elems"
| "Appends elems (Inl e # rs) = Inl e"
| "Appends elems (Inr s # rs) = Appends (elems @ [s]) rs"

text \<open>\<^verbatim>\<open>strings.Join(elems, sep)\<close>\<close>

fun Join :: "string list \<Rightarrow> string \<Rightarrow> string" where
  "Join [] sep = []"
| "Join [a] sep = a"
| "Join (a # b # bs) sep = a @ sep @ Join (b # bs) sep"

subsection \<open>\<^verbatim>\<open>String()\<close>\<close>

text \<open>\<^verbatim>\<open>func (id *Identifier) String() string { return id.Value }\<close>\<close>

fun Identifier_String :: "Identifier \<Rightarrow> string" where
  "Identifier_String (Identifier tok v) = v"

text \<open>
  The \<^verbatim>\<open>String\<close> methods of the statements, the expressions and the block, in the
  order of the source. \<^verbatim>\<open>x.TokenLiteral()\<close> on the receiver itself is the receiver's
  \<^verbatim>\<open>Token.Literal\<close>.
\<close>

fun Statement_String :: "Statement \<Rightarrow> panic + string"
  and Expression_String :: "Expression \<Rightarrow> panic + string"
  and BlockStatement_String :: "BlockStatement \<Rightarrow> panic + string"
where
  "Statement_String NilStatement = Inl NilDereference"
| "Statement_String (LetStatement tok name val) =
     WriteStrings []
       ([Inr (Literal tok @ '' ''),
         (case name of None \<Rightarrow> Inl NilDereference | Some n \<Rightarrow> Inr (Identifier_String n)),
         Inr '' = ''] @
        (case val of None \<Rightarrow> [] | Some v \<Rightarrow> [Expression_String v]) @
        [Inr '';''])"
| "Statement_String (ReturnStatement tok rv) =
     WriteStrings []
       ([Inr (Literal tok @ '' ''),
         Inr '' ''] @
        (case rv of None \<Rightarrow> [] | Some v \<Rightarrow> [Expression_String v]) @
        [Inr '';''])"
| "Statement_String (ExpressionStatement tok ex) =
     (case ex of Some e \<Rightarrow> Expression_String e | None \<Rightarrow> Inr [])"
| "Statement_String (Block b) = BlockStatement_String b"
| "Expression_String NilExpression = Inl NilDereference"
| "Expression_String (Ident i) = Inr (Identifier_String i)"
| "Expression_String (IntegerLiteral tok v) = Inr (Literal tok)"
| "Expression_String (PrefixExpression tok operator right) =
     WriteStrings []
       [Inr ''('',
        Inr operator,
        (case right of None \<Rightarrow> Inl NilDereference | Some r \<Rightarrow> Expression_String r),
        Inr '')'']"
| "Expression_String (InfixExpression tok left operator right) =
     WriteStrings []
       [Inr ''('',
        (case left of None \<Rightarrow> Inl NilDereference | Some l \<Rightarrow> Expression_String l),
        Inr ('' '' @ operator @ '' ''),
        (case right of None \<Rightarrow> Inl NilDereference | Some r \<Rightarrow> Expression_String r),
        Inr '')'']"
| "Expression_String (Boolean tok v) = Inr (Literal tok)"
| "Expression_String (IfExpression tok condition consequence alternative) =
     WriteStrings []
       ([Inr ''if'',
         (case condition of None \<Rightarrow> Inl NilDereference | Some c \<Rightarrow> Expression_String c),
         Inr '' '',
         (case consequence of None \<Rightarrow> Inl NilDereference | Some b \<Rightarrow> BlockStatement_String b)] @
        (case alternative of None \<Rightarrow> []
         | Some a \<Rightarrow> [Inr ''else '', BlockStatement_String a]))"
| "Expression_String (FunctionLiteral tok parameters body) =
     (case Appends []
             (map (\<lambda>p. case p of None \<Rightarrow> Inl NilDereference
                                 | Some i \<Rightarrow> Inr (Identifier_String i)) parameters) of
        Inl e \<Rightarrow> Inl e
      | Inr params \<Rightarrow>
          WriteStrings []
            [Inr (Literal tok),
             Inr ''('',
             Inr (Join params '', ''),
             Inr '')'',
             (case body of None \<Rightarrow> Inl NilDereference | Some b \<Rightarrow> BlockStatement_String b)])"
| "Expression_String (CallExpression tok function arguments) =
     (case Appends []
             (map (\<lambda>a. case a of None \<Rightarrow> Inl NilDereference
                                 | Some e \<Rightarrow> Expression_String e) arguments) of
        Inl e \<Rightarrow> Inl e
      | Inr args \<Rightarrow>
          WriteStrings []
            [(case function of None \<Rightarrow> Inl NilDereference | Some f \<Rightarrow> Expression_String f),
             Inr ''('',
             Inr (Join args '', ''),
             Inr '')''])"
| "Expression_String (StringLiteral tok v) = Inr (Literal tok)"
| "Expression_String (ArrayLiteral tok els) =
     (case Appends []
             (map (\<lambda>x. case x of None \<Rightarrow> Inl NilDereference
                                 | Some e \<Rightarrow> Expression_String e) els) of
        Inl e \<Rightarrow> Inl e
      | Inr elements \<Rightarrow>
          WriteStrings []
            [Inr ''['',
             Inr (Join elements '', ''),
             Inr '']''])"
| "Expression_String (IndexExpression tok left index) =
     WriteStrings []
       [Inr ''('',
        (case left of None \<Rightarrow> Inl NilDereference | Some l \<Rightarrow> Expression_String l),
        Inr ''['',
        (case index of None \<Rightarrow> Inl NilDereference | Some i \<Rightarrow> Expression_String i),
        Inr ''])'']"
| "Expression_String (HashLiteral tok prs) =
     (case Appends []
             (map (\<lambda>(key, val).
                     case (case key of None \<Rightarrow> Inl NilDereference
                                      | Some k \<Rightarrow> Expression_String k) of
                       Inl e \<Rightarrow> Inl e
                     | Inr ks \<Rightarrow>
                         (case (case val of None \<Rightarrow> Inl NilDereference
                                          | Some v \<Rightarrow> Expression_String v) of
                            Inl e \<Rightarrow> Inl e
                          | Inr vs \<Rightarrow> Inr (ks @ '':'' @ vs))) prs) of
        Inl e \<Rightarrow> Inl e
      | Inr pairs \<Rightarrow>
          WriteStrings []
            [Inr ''{'',
             Inr (Join pairs '', ''),
             Inr ''}''])"
| "BlockStatement_String (BlockStatement tok stmts) =
     WriteStrings []
       (map (\<lambda>x. case x of None \<Rightarrow> Inl NilDereference
                         | Some stmt \<Rightarrow> Statement_String stmt) stmts)"

text \<open>
  \<^verbatim>\<open>func (p *Program) String() string\<close>: one \<^verbatim>\<open>WriteString\<close> per statement.
\<close>

fun Program_String :: "Program \<Rightarrow> panic + string" where
  "Program_String (Program stmts) =
     WriteStrings []
       (map (\<lambda>x. case x of None \<Rightarrow> Inl NilDereference
                         | Some s \<Rightarrow> Statement_String s) stmts)"

subsection \<open>\<^verbatim>\<open>TokenLiteral()\<close>\<close>

text \<open>
  Every \<^verbatim>\<open>TokenLiteral\<close> returns the receiver's \<^verbatim>\<open>Token.Literal\<close>, except that of
  \<^verbatim>\<open>*StringLiteral\<close>, which returns \<^verbatim>\<open>s.String()\<close>.
\<close>

fun Statement_TokenLiteral :: "Statement \<Rightarrow> panic + string" where
  "Statement_TokenLiteral NilStatement = Inl NilDereference"
| "Statement_TokenLiteral (LetStatement tok name val) = Inr (Literal tok)"
| "Statement_TokenLiteral (ReturnStatement tok rv) = Inr (Literal tok)"
| "Statement_TokenLiteral (ExpressionStatement tok ex) = Inr (Literal tok)"
| "Statement_TokenLiteral (Block (BlockStatement tok stmts)) = Inr (Literal tok)"

fun Expression_TokenLiteral :: "Expression \<Rightarrow> panic + string" where
  "Expression_TokenLiteral NilExpression = Inl NilDereference"
| "Expression_TokenLiteral (Ident (Identifier tok v)) = Inr (Literal tok)"
| "Expression_TokenLiteral (IntegerLiteral tok v) = Inr (Literal tok)"
| "Expression_TokenLiteral (PrefixExpression tok operator right) = Inr (Literal tok)"
| "Expression_TokenLiteral (InfixExpression tok left operator right) = Inr (Literal tok)"
| "Expression_TokenLiteral (Boolean tok v) = Inr (Literal tok)"
| "Expression_TokenLiteral (IfExpression tok condition consequence alternative) =
     Inr (Literal tok)"
| "Expression_TokenLiteral (FunctionLiteral tok parameters body) = Inr (Literal tok)"
| "Expression_TokenLiteral (CallExpression tok function arguments) = Inr (Literal tok)"
| "Expression_TokenLiteral (StringLiteral tok v) = Expression_String (StringLiteral tok v)"
| "Expression_TokenLiteral (ArrayLiteral tok els) = Inr (Literal tok)"
| "Expression_TokenLiteral (IndexExpression tok left index) = Inr (Literal tok)"
| "Expression_TokenLiteral (HashLiteral tok prs) = Inr (Literal tok)"

text \<open>
  \<^verbatim>\<open>func (p *Program) TokenLiteral() string\<close>: one \<^verbatim>\<open>WriteString\<close> per statement.
\<close>

fun Program_TokenLiteral :: "Program \<Rightarrow> panic + string" where
  "Program_TokenLiteral (Program stmts) =
     WriteStrings []
       (map (\<lambda>x. case x of None \<Rightarrow> Inl NilDereference
                         | Some s \<Rightarrow> Statement_TokenLiteral s) stmts)"


subsection \<open>Trees without a missing required child\<close>

text \<open>
  The source tests four child fields against \<^verbatim>\<open>nil\<close> before it calls a method on
  them: \<^verbatim>\<open>LetStatement.Value\<close>, \<^verbatim>\<open>ReturnStatement.ReturnValue\<close>,
  \<^verbatim>\<open>ExpressionStatement.Expression\<close> and \<^verbatim>\<open>IfExpression.Alternative\<close>. A tree is
  complete when every other child, at every depth, is there (and no interface value holds
  a nil pointer).
\<close>

fun Statement_complete :: "Statement \<Rightarrow> bool"
  and Expression_complete :: "Expression \<Rightarrow> bool"
  and BlockStatement_complete :: "BlockStatement \<Rightarrow> bool"
where
  "Statement_complete NilStatement = False"
| "Statement_complete (LetStatement tok name val) =
     (name \<noteq> None \<and> (case val of None \<Rightarrow> True | Some v \<Rightarrow> Expression_complete v))"
| "Statement_complete (ReturnStatement tok rv) =
     (case rv of None \<Rightarrow> True | Some v \<Rightarrow> Expression_complete v)"
| "Statement_complete (ExpressionStatement tok ex) =
     (case ex of None \<Rightarrow> True | Some e \<Rightarrow> Expression_complete e)"
| "Statement_complete (Block b) = BlockStatement_complete b"
| "Expression_complete NilExpression = False"
| "Expression_complete (Ident i) = True"
| "Expression_complete (IntegerLiteral tok v) = True"
| "Expression_complete (PrefixExpression tok operator right) =
     (case right of None \<Rightarrow> False | Some r \<Rightarrow> Expression_complete r)"
| "Expression_complete (InfixExpression tok left operator right) =
     ((case left of None \<Rightarrow> False | Some l \<Rightarrow> Expression_complete l) \<and>
      (case right of None \<Rightarrow> False | Some r \<Rightarrow> Expression_complete r))"
| "Expression_complete (Boolean tok v) = True"
| "Expression_complete (IfExpression tok condition consequence alternative) =
     ((case condition of None \<Rightarrow> False | Some c \<Rightarrow> Expression_complete c) \<and>
      (case consequence of None \<Rightarrow> False | Some b \<Rightarrow> BlockStatement_complete b) \<and>
      (case alternative of None \<Rightarrow> True | Some a \<Rightarrow> BlockStatement_complete a))"
| "Expression_complete (FunctionLiteral tok parameters body) =
     (list_all (\<lambda>p. p \<noteq> None) parameters \<and>
      (case body of None \<Rightarrow> False | Some b \<Rightarrow> BlockStatement_complete b))"
| "Expression_complete (CallExpression tok function arguments) =
     ((case function of None \<Rightarrow> False | Some f \<Rightarrow> Expression_complete f) \<and>
      list_all (\<lambda>a. case a of None \<Rightarrow> False | Some e \<Rightarrow> Expression_complete e) arguments)"
| "Expression_complete (StringLiteral tok v) = True"
| "Expression_complete (ArrayLiteral tok els) =
     list_all (\<lambda>x. case x of None \<Rightarrow> False | Some e \<Rightarrow> Expression_complete e) els"
| "Expression_complete (IndexExpression tok left index) =
     ((case left of None \<Rightarrow> False | Some l \<Rightarrow> Expression_complete l) \<and>
      (case index of None \<Rightarrow> False | Some i \<Rightarrow> Expression_complete i))"
| "Expression_complete (HashLiteral tok prs) =
     list_all (\<lambda>(key, val).
                 (case key of None \<Rightarrow> False | Some k \<Rightarrow> Expression_complete k) \<and>
                 (case val of None \<Rightarrow> False | Some v \<Rightarrow> Expression_complete v)) prs"
| "BlockStatement_complete (BlockStatement tok stmts) =
     list_all (\<lambda>x. case x of None \<Rightarrow> False | Some s \<Rightarrow> Statement_complete s) stmts"



section \<open>Writes and collected slices\<close>

text \<open>When no argument panics, the buffer ends up holding the arguments in order.\<close>

lemma WriteStrings_Inr: "WriteStrings out (map Inr xs) = Inr (out @ concat xs)"
  by (induction xs arbitrary: out) simp_all

lemma Appends_Inr: "Appends elems (map Inr xs) = Inr (elems @ xs)"
  by (induction xs arbitrary: elems) simp_all

text \<open>A run of writes panics exactly when one of its arguments does.\<close>

lemma isl_WriteStrings: "isl (WriteStrings out rs) = (\<exists>r\<in>set rs. isl r)"
  by (induction out rs rule: WriteStrings.induct) simp_all

lemma isl_Appends: "isl (Appends elems rs) = (\<exists>r\<in>set rs. isl r)"
  by (induction elems rs rule: Appends.induct) simp_all

lemma isl_case_sum:
  "isl (case r of Inl e \<Rightarrow> Inl e | Inr x \<Rightarrow> f x) = (isl r \<or> isl (f (projr r)))"
  by (cases r) simp_all

text \<open>\<^verbatim>\<open>strings.Join\<close> on a non-empty slice: the first element, then the separator in
  front of every later element.\<close>

lemma Join_Cons: "Join (x # xs) sep = x @ concat (map (\<lambda>y. sep @ y) xs)"
  by (induction xs arbitrary: x) simp_all

lemma not_isl_iff: "(\<not> isl r) = (\<exists>x. r = Inr x)"
  by (cases r) simp_all

text \<open>Non-nil statements and their results, as the loops of the source see them.\<close>

lemma case_Some_comp: "(\<lambda>x. case x of None \<Rightarrow> d | Some s \<Rightarrow> f s) \<circ> Some = f"
  by (simp add: fun_eq_iff)

text \<open>The strings collected from the pairs of a hash literal whose keys and values render.\<close>

lemma pairs_rendered:
  "map (\<lambda>(k, v). (Expression_String k, Expression_String v)) kvs =
     map (\<lambda>(ks, vs). (Inr ks, Inr vs)) strs \<Longrightarrow>
   map (\<lambda>(key, val).
          case (case key of None \<Rightarrow> Inl NilDereference | Some k \<Rightarrow> Expression_String k) of
            Inl e \<Rightarrow> Inl e
          | Inr ks \<Rightarrow>
              (case (case val of None \<Rightarrow> Inl NilDereference | Some v \<Rightarrow> Expression_String v) of
                 Inl e \<Rightarrow> Inl e
               | Inr vs \<Rightarrow> Inr (ks @ '':'' @ vs)))
       (map (\<lambda>(k, v). (Some k, Some v)) kvs) =
   map Inr (map (\<lambda>(ks, vs). ks @ '':'' @ vs) strs)"
proof (induction kvs arbitrary: strs)
  case Nil
  then show ?case by simp
next
  case (Cons kv kvs)
  then obtain st strs' where strs: "strs = st # strs'"
    by (cases strs) auto
  obtain k v where kv: "kv = (k, v)" by (cases kv)
  obtain ks vs where st: "st = (ks, vs)" by (cases st)
  from Cons.prems strs kv st
  have hd: "Expression_String k = Inr ks" "Expression_String v = Inr vs"
    and tl: "map (\<lambda>(k, v). (Expression_String k, Expression_String v)) kvs =
             map (\<lambda>(ks, vs). (Inr ks, Inr vs)) strs'"
    by simp_all
  from Cons.IH [OF tl] hd show ?case
    by (simp add: strs kv st)
qed

text \<open>A tree is complete exactly when its rendering does not panic.\<close>

lemma complete_iff_no_panic:
  "Statement_complete s = (\<not> isl (Statement_String s))"
  "Expression_complete e = (\<not> isl (Expression_String e))"
  "BlockStatement_complete b = (\<not> isl (BlockStatement_String b))"
proof (induction s and e and b)
qed (auto simp: isl_WriteStrings isl_Appends isl_case_sum list_all_iff split: option.splits)


section \<open>Keyword classification\<close>

text \<open>
  C3: \<^verbatim>\<open>LookuptIdent\<close> returns the keyword kind for each of the seven reserved words
  \<^verbatim>\<open>fn, let, true, false, if, else, return\<close>, and \<open>IDENT\<close> for every other string; it is a
  total function of its argument alone.
\<close>

theorem LookuptIdent_keywords:
  "LookuptIdent ''fn'' = FUNCTION \<and>
   LookuptIdent ''let'' = LET \<and>
   LookuptIdent ''true'' = TRUE \<and>
   LookuptIdent ''false'' = FALSE \<and>
   LookuptIdent ''if'' = IF \<and>
   LookuptIdent ''else'' = ELSE \<and>
   LookuptIdent ''return'' = RETURN \<and>
   (ident \<notin> {''fn'', ''let'', ''true'', ''false'', ''if'', ''else'', ''return''}
      \<longrightarrow> LookuptIdent ident = IDENT) \<and>
   (LookuptIdent ident \<noteq> IDENT
      \<longrightarrow> ident \<in> {''fn'', ''let'', ''true'', ''false'', ''if'', ''else'', ''return''})"
  by (simp add: LookuptIdent_def keywords_def)

theorem LookuptIdent_keywords_witness:
  "''Let'' \<notin> {''fn'', ''let'', ''true'', ''false'', ''if'', ''else'', ''return''} \<and>
   LookuptIdent ''Let'' = IDENT \<and>
   LookuptIdent ''let'' \<noteq> IDENT \<and>
   ''let'' \<in> {''fn'', ''let'', ''true'', ''false'', ''if'', ''else'', ''return''}"
  using LookuptIdent_keywords [of "''Let''"] LookuptIdent_keywords [of "''let''"]
  by (simp add: LET_def IDENT_def)


section \<open>Leaf expressions\<close>

text \<open>
  C2 (as amended): for every Boolean node, \<^verbatim>\<open>String()\<close> returns the node's
  \<^verbatim>\<open>Token.Literal\<close>, whatever the \<^verbatim>\<open>Value\<close> field holds.
\<close>

theorem Boolean_String_Literal:
  "Expression_String (Boolean tok v) = Inr (Literal tok)"
  by simp

text \<open>
  C2 (as stated) fails: a Boolean node whose \<^verbatim>\<open>Value\<close> is false and whose token literal
  is \<^verbatim>\<open>true\<close> is not rendered as \<^verbatim>\<open>false\<close>.
\<close>

theorem Boolean_String_counterexample:
  "Expression_String (Boolean \<lparr>Type = TRUE, Literal = ''true''\<rparr> False) \<noteq> Inr ''false''"
  by simp

text \<open>
  C10: for every StringLiteral node, \<^verbatim>\<open>TokenLiteral()\<close> and \<^verbatim>\<open>String()\<close> return the
  same string, the node's \<^verbatim>\<open>Token.Literal\<close>; the \<^verbatim>\<open>Value\<close> field plays no part.
\<close>

theorem StringLiteral_TokenLiteral_String:
  "Expression_TokenLiteral (StringLiteral tok v) = Expression_String (StringLiteral tok v) \<and>
   Expression_String (StringLiteral tok v) = Inr (Literal tok) \<and>
   Expression_TokenLiteral (StringLiteral tok v) = Expression_TokenLiteral (StringLiteral tok v') \<and>
   Expression_String (StringLiteral tok v) = Expression_String (StringLiteral tok v')"
  by simp


section \<open>Statements\<close>

text \<open>
  C4: a LetStatement with a name and a value renders as the token literal, a space, the
  name, \<^verbatim>\<open> = \<close>, the value's rendering and \<^verbatim>\<open>;\<close>. With a nil value the value segment
  is left out and the \<^verbatim>\<open>;\<close> stays.
\<close>

theorem LetStatement_String:
  "(Expression_String v = Inr s \<longrightarrow>
      Statement_String (LetStatement tok (Some n) (Some v)) =
        Inr (Literal tok @ '' '' @ Identifier_String n @ '' = '' @ s @ '';'')) \<and>
   Statement_String (LetStatement tok (Some n) None) =
     Inr (Literal tok @ '' '' @ Identifier_String n @ '' = '' @ '';'')"
  by simp

theorem LetStatement_String_witness:
  "Expression_String (IntegerLiteral \<lparr>Type = ''INT'', Literal = ''5''\<rparr> 5) = Inr ''5'' \<and>
   Statement_String
     (LetStatement \<lparr>Type = LET, Literal = ''let''\<rparr>
        (Some (Identifier \<lparr>Type = IDENT, Literal = ''x''\<rparr> ''x''))
        (Some (IntegerLiteral \<lparr>Type = ''INT'', Literal = ''5''\<rparr> 5))) = Inr ''let x = 5;''"
  using LetStatement_String
    [of "IntegerLiteral \<lparr>Type = ''INT'', Literal = ''5''\<rparr> 5" "''5''"
        "\<lparr>Type = LET, Literal = ''let''\<rparr>"
        "Identifier \<lparr>Type = IDENT, Literal = ''x''\<rparr> ''x''"]
  by simp

text \<open>
  C5: a ReturnStatement with a value renders as the token literal, two spaces, the value's
  rendering and \<^verbatim>\<open>;\<close>. With a nil value the value segment is left out and the \<^verbatim>\<open>;\<close>
  stays.
\<close>

theorem ReturnStatement_String:
  "(Expression_String v = Inr s \<longrightarrow>
      Statement_String (ReturnStatement tok (Some v)) =
        Inr (Literal tok @ ''  '' @ s @ '';'')) \<and>
   Statement_String (ReturnStatement tok None) = Inr (Literal tok @ ''  '' @ '';'')"
  by simp

theorem ReturnStatement_String_witness:
  "Expression_String (Boolean \<lparr>Type = TRUE, Literal = ''true''\<rparr> True) = Inr ''true'' \<and>
   Statement_String
     (ReturnStatement \<lparr>Type = RETURN, Literal = ''return''\<rparr>
        (Some (Boolean \<lparr>Type = TRUE, Literal = ''true''\<rparr> True))) = Inr ''return  true;''"
  using ReturnStatement_String
    [of "Boolean \<lparr>Type = TRUE, Literal = ''true''\<rparr> True" "''true''"
        "\<lparr>Type = RETURN, Literal = ''return''\<rparr>"]
  by simp


section \<open>Operators\<close>

text \<open>
  C6: a PrefixExpression renders as \<^verbatim>\<open>(\<close>, the operator, the operand's rendering and
  \<^verbatim>\<open>)\<close>, with no space after the operator; an InfixExpression renders as \<^verbatim>\<open>(\<close>, the
  left rendering, the operator between single spaces, the right rendering and \<^verbatim>\<open>)\<close>.
\<close>

theorem Operator_String:
  "(Expression_String r = Inr rs \<longrightarrow>
      Expression_String (PrefixExpression tok operator (Some r)) =
        Inr (''('' @ operator @ rs @ '')'')) \<and>
   (Expression_String l = Inr ls \<longrightarrow> Expression_String r = Inr rs \<longrightarrow>
      Expression_String (InfixExpression tok (Some l) operator (Some r)) =
        Inr (''('' @ ls @ '' '' @ operator @ '' '' @ rs @ '')''))"
  by simp

theorem Operator_String_witness:
  "Expression_String (IntegerLiteral \<lparr>Type = ''INT'', Literal = ''5''\<rparr> 5) = Inr ''5'' \<and>
   Expression_String
     (PrefixExpression \<lparr>Type = ''-'', Literal = ''-''\<rparr> ''-''
        (Some (IntegerLiteral \<lparr>Type = ''INT'', Literal = ''5''\<rparr> 5))) = Inr ''(-5)'' \<and>
   Expression_String
     (InfixExpression \<lparr>Type = ''+'', Literal = ''+''\<rparr>
        (Some (IntegerLiteral \<lparr>Type = ''INT'', Literal = ''1''\<rparr> 1)) ''+''
        (Some (IntegerLiteral \<lparr>Type = ''INT'', Literal = ''2''\<rparr> 2))) = Inr ''(1 + 2)'' \<and>
   Expression_String
     (InfixExpression \<lparr>Type = ''+'', Literal = ''+''\<rparr>
        (Some (InfixExpression \<lparr>Type = ''+'', Literal = ''+''\<rparr>
           (Some (IntegerLiteral \<lparr>Type = ''INT'', Literal = ''1''\<rparr> 1)) ''+''
           (Some (IntegerLiteral \<lparr>Type = ''INT'', Literal = ''2''\<rparr> 2)))) ''+''
        (Some (IntegerLiteral \<lparr>Type = ''INT'', Literal = ''3''\<rparr> 3))) = Inr ''((1 + 2) + 3)''"
proof -
  let ?plus = "\<lparr>Type = ''+'', Literal = ''+''\<rparr>"
  let ?one = "IntegerLiteral \<lparr>Type = ''INT'', Literal = ''1''\<rparr> 1"
  let ?two = "IntegerLiteral \<lparr>Type = ''INT'', Literal = ''2''\<rparr> 2"
  let ?three = "IntegerLiteral \<lparr>Type = ''INT'', Literal = ''3''\<rparr> 3"
  let ?five = "IntegerLiteral \<lparr>Type = ''INT'', Literal = ''5''\<rparr> 5"
  have five: "Expression_String ?five = Inr ''5''" by simp
  have neg: "Expression_String (PrefixExpression \<lparr>Type = ''-'', Literal = ''-''\<rparr> ''-'' (Some ?five))
               = Inr ''(-5)''"
    using Operator_String [of ?five "''5''" "\<lparr>Type = ''-'', Literal = ''-''\<rparr>" "''-''"] five
    by simp
  have sum12: "Expression_String (InfixExpression ?plus (Some ?one) ''+'' (Some ?two))
                 = Inr ''(1 + 2)''"
    using Operator_String [of ?two "''2''" ?plus "''+''" ?one "''1''"] by simp
  have sum123: "Expression_String
                  (InfixExpression ?plus
                     (Some (InfixExpression ?plus (Some ?one) ''+'' (Some ?two))) ''+''
                     (Some ?three)) = Inr ''((1 + 2) + 3)''"
    using Operator_String
      [of ?three "''3''" ?plus "''+''" "InfixExpression ?plus (Some ?one) ''+'' (Some ?two)"
          "''(1 + 2)''"] sum12
    by simp
  from five neg sum12 sum123 show ?thesis by simp
qed


section \<open>Programs, blocks and conditionals\<close>

text \<open>
  C7: \<^verbatim>\<open>Program.TokenLiteral()\<close> is the concatenation of the statements' token literals and
  \<^verbatim>\<open>Program.String()\<close> the concatenation of the statements' renderings, both in order and
  with nothing in between; both are empty for a program without statements.
\<close>

theorem Program_concat:
  "(map Statement_TokenLiteral ss = map Inr lits \<longrightarrow>
      Program_TokenLiteral (Program (map Some ss)) = Inr (concat lits)) \<and>
   (map Statement_String ss = map Inr strs \<longrightarrow>
      Program_String (Program (map Some ss)) = Inr (concat strs)) \<and>
   Program_TokenLiteral (Program []) = Inr [] \<and>
   Program_String (Program []) = Inr []"
  by (simp add: case_Some_comp WriteStrings_Inr)

theorem Program_concat_witness:
  "map Statement_TokenLiteral
     [LetStatement \<lparr>Type = LET, Literal = ''let''\<rparr>
        (Some (Identifier \<lparr>Type = IDENT, Literal = ''x''\<rparr> ''x''))
        (Some (IntegerLiteral \<lparr>Type = ''INT'', Literal = ''5''\<rparr> 5)),
      ReturnStatement \<lparr>Type = RETURN, Literal = ''return''\<rparr>
        (Some (Boolean \<lparr>Type = TRUE, Literal = ''true''\<rparr> True))] =
   map Inr [''let'', ''return''] \<and>
   Program_TokenLiteral
     (Program
        [Some (LetStatement \<lparr>Type = LET, Literal = ''let''\<rparr>
           (Some (Identifier \<lparr>Type = IDENT, Literal = ''x''\<rparr> ''x''))
           (Some (IntegerLiteral \<lparr>Type = ''INT'', Literal = ''5''\<rparr> 5))),
         Some (ReturnStatement \<lparr>Type = RETURN, Literal = ''return''\<rparr>
           (Some (Boolean \<lparr>Type = TRUE, Literal = ''true''\<rparr> True)))]) = Inr ''letreturn'' \<and>
   map Statement_String
     [LetStatement \<lparr>Type = LET, Literal = ''let''\<rparr>
        (Some (Identifier \<lparr>Type = IDENT, Literal = ''x''\<rparr> ''x''))
        (Some (IntegerLiteral \<lparr>Type = ''INT'', Literal = ''5''\<rparr> 5)),
      ReturnStatement \<lparr>Type = RETURN, Literal = ''return''\<rparr>
        (Some (Boolean \<lparr>Type = TRUE, Literal = ''true''\<rparr> True))] =
   map Inr [''let x = 5;'', ''return  true;''] \<and>
   Program_String
     (Program
        [Some (LetStatement \<lparr>Type = LET, Literal = ''let''\<rparr>
           (Some (Identifier \<lparr>Type = IDENT, Literal = ''x''\<rparr> ''x''))
           (Some (IntegerLiteral \<lparr>Type = ''INT'', Literal = ''5''\<rparr> 5))),
         Some (ReturnStatement \<lparr>Type = RETURN, Literal = ''return''\<rparr>
           (Some (Boolean \<lparr>Type = TRUE, Literal = ''true''\<rparr> True)))]) =
     Inr ''let x = 5;return  true;''"
proof -
  let ?l = "LetStatement \<lparr>Type = LET, Literal = ''let''\<rparr>
              (Some (Identifier \<lparr>Type = IDENT, Literal = ''x''\<rparr> ''x''))
              (Some (IntegerLiteral \<lparr>Type = ''INT'', Literal = ''5''\<rparr> 5))"
  let ?r = "ReturnStatement \<lparr>Type = RETURN, Literal = ''return''\<rparr>
              (Some (Boolean \<lparr>Type = TRUE, Literal = ''true''\<rparr> True))"
  have lits: "map Statement_TokenLiteral [?l, ?r] = map Inr [''let'', ''return'']"
    by simp
  have strs: "map Statement_String [?l, ?r] = map Inr [''let x = 5;'', ''return  true;'']"
    by simp
  from Program_concat [where ss = "[?l, ?r]" and lits = "[''let'', ''return'']"
                         and strs = "[''let x = 5;'', ''return  true;'']"] lits strs
  have "Program_TokenLiteral (Program (map Some [?l, ?r])) = Inr (concat [''let'', ''return''])"
    and "Program_String (Program (map Some [?l, ?r])) =
           Inr (concat [''let x = 5;'', ''return  true;''])"
    by blast+
  then have "Program_TokenLiteral (Program [Some ?l, Some ?r]) = Inr ''letreturn''"
    and "Program_String (Program [Some ?l, Some ?r]) = Inr ''let x = 5;return  true;''"
    by simp_all
  with lits strs show ?thesis by blast
qed

text \<open>
  C8: an IfExpression renders as \<^verbatim>\<open>if\<close>, the condition's rendering, a space and the
  consequence's rendering, followed by \<^verbatim>\<open>else \<close> and the alternative's rendering exactly
  when there is an alternative. No brace is written: a BlockStatement renders as the bare
  concatenation of its statements' renderings.
\<close>

theorem IfExpression_String:
  "(Expression_String c = Inr cs \<longrightarrow> BlockStatement_String b = Inr bs \<longrightarrow>
      Expression_String (IfExpression tok (Some c) (Some b) None) =
        Inr (''if'' @ cs @ '' '' @ bs)) \<and>
   (Expression_String c = Inr cs \<longrightarrow> BlockStatement_String b = Inr bs \<longrightarrow>
    BlockStatement_String a = Inr as \<longrightarrow>
      Expression_String (IfExpression tok (Some c) (Some b) (Some a)) =
        Inr (''if'' @ cs @ '' '' @ bs @ ''else '' @ as)) \<and>
   (map Statement_String ss = map Inr strs \<longrightarrow>
      BlockStatement_String (BlockStatement btok (map Some ss)) = Inr (concat strs))"
  by (simp add: case_Some_comp WriteStrings_Inr)

theorem IfExpression_String_witness:
  "Expression_String
     (InfixExpression \<lparr>Type = ''<'', Literal = ''<''\<rparr>
        (Some (Ident (Identifier \<lparr>Type = IDENT, Literal = ''x''\<rparr> ''x''))) ''<''
        (Some (Ident (Identifier \<lparr>Type = IDENT, Literal = ''y''\<rparr> ''y'')))) = Inr ''(x < y)'' \<and>
   map Statement_String
     [ExpressionStatement \<lparr>Type = IDENT, Literal = ''x''\<rparr>
        (Some (Ident (Identifier \<lparr>Type = IDENT, Literal = ''x''\<rparr> ''x''))),
      ReturnStatement \<lparr>Type = RETURN, Literal = ''return''\<rparr>
        (Some (Ident (Identifier \<lparr>Type = IDENT, Literal = ''x''\<rparr> ''x'')))] =
     map Inr [''x'', ''return  x;''] \<and>
   BlockStatement_String
     (BlockStatement \<lparr>Type = ''{'', Literal = ''{''\<rparr>
        [Some (ExpressionStatement \<lparr>Type = IDENT, Literal = ''x''\<rparr>
           (Some (Ident (Identifier \<lparr>Type = IDENT, Literal = ''x''\<rparr> ''x'')))),
         Some (ReturnStatement \<lparr>Type = RETURN, Literal = ''return''\<rparr>
           (Some (Ident (Identifier \<lparr>Type = IDENT, Literal = ''x''\<rparr> ''x''))))]) =
     Inr ''xreturn  x;'' \<and>
   BlockStatement_String
     (BlockStatement \<lparr>Type = ''{'', Literal = ''{''\<rparr>
        [Some (ExpressionStatement \<lparr>Type = IDENT, Literal = ''y''\<rparr>
           (Some (Ident (Identifier \<lparr>Type = IDENT, Literal = ''y''\<rparr> ''y''))))]) = Inr ''y'' \<and>
   Expression_String
     (IfExpression \<lparr>Type = IF, Literal = ''if''\<rparr>
        (Some (InfixExpression \<lparr>Type = ''<'', Literal = ''<''\<rparr>
           (Some (Ident (Identifier \<lparr>Type = IDENT, Literal = ''x''\<rparr> ''x''))) ''<''
           (Some (Ident (Identifier \<lparr>Type = IDENT, Literal = ''y''\<rparr> ''y'')))))
        (Some (BlockStatement \<lparr>Type = ''{'', Literal = ''{''\<rparr>
           [Some (ExpressionStatement \<lparr>Type = IDENT, Literal = ''x''\<rparr>
              (Some (Ident (Identifier \<lparr>Type = IDENT, Literal = ''x''\<rparr> ''x'')))),
            Some (ReturnStatement \<lparr>Type = RETURN, Literal = ''return''\<rparr>
              (Some (Ident (Identifier \<lparr>Type = IDENT, Literal = ''x''\<rparr> ''x''))))]))
        None) = Inr ''if(x < y) xreturn  x;'' \<and>
   Expression_String
     (IfExpression \<lparr>Type = IF, Literal = ''if''\<rparr>
        (Some (InfixExpression \<lparr>Type = ''<'', Literal = ''<''\<rparr>
           (Some (Ident (Identifier \<lparr>Type = IDENT, Literal = ''x''\<rparr> ''x''))) ''<''
           (Some (Ident (Identifier \<lparr>Type = IDENT, Literal = ''y''\<rparr> ''y'')))))
        (Some (BlockStatement \<lparr>Type = ''{'', Literal = ''{''\<rparr>
           [Some (ExpressionStatement \<lparr>Type = IDENT, Literal = ''x''\<rparr>
              (Some (Ident (Identifier \<lparr>Type = IDENT, Literal = ''x''\<rparr> ''x'')))),
            Some (ReturnStatement \<lparr>Type = RETURN, Literal = ''return''\<rparr>
              (Some (Ident (Identifier \<lparr>Type = IDENT, Literal = ''x''\<rparr> ''x''))))]))
        (Some (BlockStatement \<lparr>Type = ''{'', Literal = ''{''\<rparr>
           [Some (ExpressionStatement \<lparr>Type = IDENT, Literal = ''y''\<rparr>
              (Some (Ident (Identifier \<lparr>Type = IDENT, Literal = ''y''\<rparr> ''y''))))]))) =
     Inr ''if(x < y) xreturn  x;else y''"
proof -
  let ?x = "Ident (Identifier \<lparr>Type = IDENT, Literal = ''x''\<rparr> ''x'')"
  let ?y = "Ident (Identifier \<lparr>Type = IDENT, Literal = ''y''\<rparr> ''y'')"
  let ?c = "InfixExpression \<lparr>Type = ''<'', Literal = ''<''\<rparr> (Some ?x) ''<'' (Some ?y)"
  let ?sx = "ExpressionStatement \<lparr>Type = IDENT, Literal = ''x''\<rparr> (Some ?x)"
  let ?rx = "ReturnStatement \<lparr>Type = RETURN, Literal = ''return''\<rparr> (Some ?x)"
  let ?sy = "ExpressionStatement \<lparr>Type = IDENT, Literal = ''y''\<rparr> (Some ?y)"
  let ?brace = "\<lparr>Type = ''{'', Literal = ''{''\<rparr>"
  let ?b = "BlockStatement ?brace (map Some [?sx, ?rx])"
  let ?a = "BlockStatement ?brace (map Some [?sy])"
  let ?if = "\<lparr>Type = IF, Literal = ''if''\<rparr>"
  have c: "Expression_String ?c = Inr ''(x < y)''" by simp
  have ss: "map Statement_String [?sx, ?rx] = map Inr [''x'', ''return  x;'']" by simp
  have sa: "map Statement_String [?sy] = map Inr [''y'']" by simp
  have b: "BlockStatement_String ?b = Inr ''xreturn  x;''"
    using IfExpression_String [where ss = "[?sx, ?rx]" and strs = "[''x'', ''return  x;'']"
                                 and btok = ?brace] ss
    by simp
  have a: "BlockStatement_String ?a = Inr ''y''"
    using IfExpression_String [where ss = "[?sy]" and strs = "[''y'']" and btok = ?brace] sa
    by simp
  have without: "Expression_String (IfExpression ?if (Some ?c) (Some ?b) None) =
                   Inr ''if(x < y) xreturn  x;''"
    using IfExpression_String [where c = ?c and cs = "''(x < y)''" and b = ?b
                                 and bs = "''xreturn  x;''" and tok = ?if] c b
    by simp
  have "with": "Expression_String (IfExpression ?if (Some ?c) (Some ?b) (Some ?a)) =
                Inr ''if(x < y) xreturn  x;else y''"
    using IfExpression_String [where c = ?c and cs = "''(x < y)''" and b = ?b
                                 and bs = "''xreturn  x;''" and a = ?a and as = "''y''"
                                 and tok = ?if] c b a
    by simp
  from c ss b a without "with" show ?thesis by simp
qed


section \<open>Hash literals\<close>

text \<open>
  C9: a HashLiteral renders as \<^verbatim>\<open>{\<close>, the strings \<^verbatim>\<open>key:value\<close> of its pairs joined by
  \<^verbatim>\<open>, \<close> in the order in which the map yields them, and \<^verbatim>\<open>}\<close>: the first pair's
  string, then every later pair's string with \<^verbatim>\<open>, \<close> in front of it. Without pairs this
  is \<^verbatim>\<open>{}\<close>, and with one pair it is \<^verbatim>\<open>{key:value}\<close>.
\<close>

theorem HashLiteral_String:
  "(map (\<lambda>(k, v). (Expression_String k, Expression_String v)) kvs =
      map (\<lambda>(ks, vs). (Inr ks, Inr vs)) strs \<longrightarrow>
      Expression_String (HashLiteral tok (map (\<lambda>(k, v). (Some k, Some v)) kvs)) =
        Inr (''{'' @
             (case strs of
                [] \<Rightarrow> []
              | (ks, vs) # rest \<Rightarrow>
                  (ks @ '':'' @ vs) @
                  concat (map (\<lambda>(ks', vs'). '', '' @ ks' @ '':'' @ vs') rest)) @
             ''}'')) \<and>
   Expression_String (HashLiteral tok []) = Inr ''{}'' \<and>
   (Expression_String k = Inr ks \<longrightarrow> Expression_String v = Inr vs \<longrightarrow>
      Expression_String (HashLiteral tok [(Some k, Some v)]) =
        Inr (''{'' @ ks @ '':'' @ vs @ ''}''))"
proof (intro conjI impI)
  assume "map (\<lambda>(k, v). (Expression_String k, Expression_String v)) kvs =
          map (\<lambda>(ks, vs). (Inr ks, Inr vs)) strs"
  from pairs_rendered [OF this]
  have run: "Expression_String (HashLiteral tok (map (\<lambda>(k, v). (Some k, Some v)) kvs)) =
             Inr (''{'' @ Join (map (\<lambda>(ks, vs). ks @ '':'' @ vs) strs) '', '' @ ''}'')"
    by (simp only: Expression_String.simps Appends_Inr sum.case WriteStrings.simps
          append_Nil append_assoc)
  have joined: "Join (map (\<lambda>(ks, vs). ks @ '':'' @ vs) strs) '', '' =
                (case strs of
                   [] \<Rightarrow> []
                 | (ks, vs) # rest \<Rightarrow>
                     (ks @ '':'' @ vs) @
                     concat (map (\<lambda>(ks', vs'). '', '' @ ks' @ '':'' @ vs') rest))"
  proof (cases strs)
    case Nil
    then show ?thesis by simp
  next
    case (Cons st rest)
    obtain ks vs where st: "st = (ks, vs)" by (cases st)
    have "map (\<lambda>y. '', '' @ y) (map (\<lambda>(ks, vs). ks @ '':'' @ vs) rest) =
          map (\<lambda>(ks', vs'). '', '' @ ks' @ '':'' @ vs') rest"
      by (induction rest) (simp_all add: case_prod_beta)
    then show ?thesis
      by (simp only: Cons st list.map prod.case Join_Cons list.case)
  qed
  from run show "Expression_String (HashLiteral tok (map (\<lambda>(k, v). (Some k, Some v)) kvs)) =
        Inr (''{'' @
             (case strs of
                [] \<Rightarrow> []
              | (ks, vs) # rest \<Rightarrow>
                  (ks @ '':'' @ vs) @
                  concat (map (\<lambda>(ks', vs'). '', '' @ ks' @ '':'' @ vs') rest)) @
             ''}'')"
    by (simp only: joined)
next
  show "Expression_String (HashLiteral tok []) = Inr ''{}''"
    by simp
next
  assume "Expression_String k = Inr ks" "Expression_String v = Inr vs"
  then show "Expression_String (HashLiteral tok [(Some k, Some v)]) =
             Inr (''{'' @ ks @ '':'' @ vs @ ''}'')"
    by simp
qed

theorem HashLiteral_String_witness:
  "map (\<lambda>(k, v). (Expression_String k, Expression_String v))
     [(StringLiteral \<lparr>Type = ''STRING'', Literal = ''a''\<rparr> ''a'',
       IntegerLiteral \<lparr>Type = ''INT'', Literal = ''1''\<rparr> 1),
      (StringLiteral \<lparr>Type = ''STRING'', Literal = ''b''\<rparr> ''b'',
       IntegerLiteral \<lparr>Type = ''INT'', Literal = ''2''\<rparr> 2),
      (StringLiteral \<lparr>Type = ''STRING'', Literal = ''c''\<rparr> ''c'',
       IntegerLiteral \<lparr>Type = ''INT'', Literal = ''3''\<rparr> 3)] =
   map (\<lambda>(ks, vs). (Inr ks, Inr vs)) [(''a'', ''1''), (''b'', ''2''), (''c'', ''3'')] \<and>
   Expression_String
     (HashLiteral \<lparr>Type = ''{'', Literal = ''{''\<rparr>
        [(Some (StringLiteral \<lparr>Type = ''STRING'', Literal = ''a''\<rparr> ''a''),
          Some (IntegerLiteral \<lparr>Type = ''INT'', Literal = ''1''\<rparr> 1)),
         (Some (StringLiteral \<lparr>Type = ''STRING'', Literal = ''b''\<rparr> ''b''),
          Some (IntegerLiteral \<lparr>Type = ''INT'', Literal = ''2''\<rparr> 2)),
         (Some (StringLiteral \<lparr>Type = ''STRING'', Literal = ''c''\<rparr> ''c''),
          Some (IntegerLiteral \<lparr>Type = ''INT'', Literal = ''3''\<rparr> 3))]) =
     Inr ''{a:1, b:2, c:3}'' \<and>
   Expression_String
     (HashLiteral \<lparr>Type = ''{'', Literal = ''{''\<rparr>
        [(Some (StringLiteral \<lparr>Type = ''STRING'', Literal = ''a''\<rparr> ''a''),
          Some (IntegerLiteral \<lparr>Type = ''INT'', Literal = ''1''\<rparr> 1))]) = Inr ''{a:1}''"
proof -
  let ?a = "StringLiteral \<lparr>Type = ''STRING'', Literal = ''a''\<rparr> ''a''"
  let ?b = "StringLiteral \<lparr>Type = ''STRING'', Literal = ''b''\<rparr> ''b''"
  let ?c = "StringLiteral \<lparr>Type = ''STRING'', Literal = ''c''\<rparr> ''c''"
  let ?one = "IntegerLiteral \<lparr>Type = ''INT'', Literal = ''1''\<rparr> 1"
  let ?two = "IntegerLiteral \<lparr>Type = ''INT'', Literal = ''2''\<rparr> 2"
  let ?three = "IntegerLiteral \<lparr>Type = ''INT'', Literal = ''3''\<rparr> 3"
  let ?brace = "\<lparr>Type = ''{'', Literal = ''{''\<rparr>"
  have h: "map (\<lambda>(k, v). (Expression_String k, Expression_String v))
             [(?a, ?one), (?b, ?two), (?c, ?three)] =
           map (\<lambda>(ks, vs). (Inr ks, Inr vs)) [(''a'', ''1''), (''b'', ''2''), (''c'', ''3'')]"
    by simp
  from HashLiteral_String [where kvs = "[(?a, ?one), (?b, ?two), (?c, ?three)]"
                             and strs = "[(''a'', ''1''), (''b'', ''2''), (''c'', ''3'')]"
                             and tok = ?brace] h
  have "Expression_String
          (HashLiteral ?brace
             (map (\<lambda>(k, v). (Some k, Some v)) [(?a, ?one), (?b, ?two), (?c, ?three)])) =
        Inr (''{'' @
             (case [(''a'', ''1''), (''b'', ''2''), (''c'', ''3'')] of
                [] \<Rightarrow> []
              | (ks, vs) # rest \<Rightarrow>
                  (ks @ '':'' @ vs) @
                  concat (map (\<lambda>(ks', vs'). '', '' @ ks' @ '':'' @ vs') rest)) @
             ''}'')"
    by blast
  then have three: "Expression_String
                      (HashLiteral ?brace
                         [(Some ?a, Some ?one), (Some ?b, Some ?two), (Some ?c, Some ?three)]) =
                    Inr ''{a:1, b:2, c:3}''"
    by (simp only: list.map prod.case list.case concat.simps append.simps)
  have one: "Expression_String (HashLiteral ?brace [(Some ?a, Some ?one)]) = Inr ''{a:1}''"
    using HashLiteral_String [where k = ?a and ks = "''a''" and v = ?one and vs = "''1''"
                                and tok = ?brace]
    by simp
  from h three one show ?thesis by simp
qed


section \<open>Nil children\<close>

text \<open>
  C1 (as amended): \<^verbatim>\<open>String()\<close> returns a string, without a panic, on every statement,
  expression, block and program in which every required child is there; the children that
  may be nil are \<^verbatim>\<open>LetStatement.Value\<close>, \<^verbatim>\<open>ReturnStatement.ReturnValue\<close>,
  \<^verbatim>\<open>ExpressionStatement.Expression\<close> and \<^verbatim>\<open>IfExpression.Alternative\<close>, whose segment
  is then left out.
\<close>

theorem String_of_complete:
  "(Statement_complete s \<longrightarrow> (\<exists>str. Statement_String s = Inr str)) \<and>
   (Expression_complete e \<longrightarrow> (\<exists>str. Expression_String e = Inr str)) \<and>
   (BlockStatement_complete b \<longrightarrow> (\<exists>str. BlockStatement_String b = Inr str)) \<and>
   (list_all (\<lambda>x. case x of None \<Rightarrow> False | Some s \<Rightarrow> Statement_complete s) stmts \<longrightarrow>
      (\<exists>str. Program_String (Program stmts) = Inr str))"
proof (intro conjI impI)
  assume "Statement_complete s"
  then show "\<exists>str. Statement_String s = Inr str"
    by (simp add: complete_iff_no_panic not_isl_iff)
next
  assume "Expression_complete e"
  then show "\<exists>str. Expression_String e = Inr str"
    by (simp add: complete_iff_no_panic not_isl_iff)
next
  assume "BlockStatement_complete b"
  then show "\<exists>str. BlockStatement_String b = Inr str"
    by (simp add: complete_iff_no_panic not_isl_iff)
next
  assume "list_all (\<lambda>x. case x of None \<Rightarrow> False | Some s \<Rightarrow> Statement_complete s) stmts"
  then have "\<not> isl (Program_String (Program stmts))"
    by (auto simp: isl_WriteStrings list_all_iff complete_iff_no_panic split: option.splits)
  then show "\<exists>str. Program_String (Program stmts) = Inr str"
    by (simp add: not_isl_iff)
qed

theorem String_of_complete_witness:
  "Statement_complete
     (LetStatement \<lparr>Type = LET, Literal = ''let''\<rparr>
        (Some (Identifier \<lparr>Type = IDENT, Literal = ''x''\<rparr> ''x'')) None) \<and>
   (\<exists>str. Statement_String
      (LetStatement \<lparr>Type = LET, Literal = ''let''\<rparr>
         (Some (Identifier \<lparr>Type = IDENT, Literal = ''x''\<rparr> ''x'')) None) = Inr str) \<and>
   Expression_complete
     (IfExpression \<lparr>Type = IF, Literal = ''if''\<rparr>
        (Some (Boolean \<lparr>Type = TRUE, Literal = ''true''\<rparr> True))
        (Some (BlockStatement \<lparr>Type = ''{'', Literal = ''{''\<rparr>
           [Some (ReturnStatement \<lparr>Type = RETURN, Literal = ''return''\<rparr> None)]))
        None) \<and>
   (\<exists>str. Expression_String
      (IfExpression \<lparr>Type = IF, Literal = ''if''\<rparr>
         (Some (Boolean \<lparr>Type = TRUE, Literal = ''true''\<rparr> True))
         (Some (BlockStatement \<lparr>Type = ''{'', Literal = ''{''\<rparr>
            [Some (ReturnStatement \<lparr>Type = RETURN, Literal = ''return''\<rparr> None)]))
         None) = Inr str) \<and>
   BlockStatement_complete
     (BlockStatement \<lparr>Type = ''{'', Literal = ''{''\<rparr>
        [Some (ExpressionStatement \<lparr>Type = IDENT, Literal = ''x''\<rparr> None)]) \<and>
   (\<exists>str. BlockStatement_String
      (BlockStatement \<lparr>Type = ''{'', Literal = ''{''\<rparr>
         [Some (ExpressionStatement \<lparr>Type = IDENT, Literal = ''x''\<rparr> None)]) = Inr str) \<and>
   list_all (\<lambda>x. case x of None \<Rightarrow> False | Some s \<Rightarrow> Statement_complete s)
     [Some (ReturnStatement \<lparr>Type = RETURN, Literal = ''return''\<rparr> None)] \<and>
   (\<exists>str. Program_String
      (Program [Some (ReturnStatement \<lparr>Type = RETURN, Literal = ''return''\<rparr> None)]) = Inr str)"
proof -
  let ?s = "LetStatement \<lparr>Type = LET, Literal = ''let''\<rparr>
              (Some (Identifier \<lparr>Type = IDENT, Literal = ''x''\<rparr> ''x'')) None"
  let ?r = "ReturnStatement \<lparr>Type = RETURN, Literal = ''return''\<rparr> None"
  let ?e = "IfExpression \<lparr>Type = IF, Literal = ''if''\<rparr>
              (Some (Boolean \<lparr>Type = TRUE, Literal = ''true''\<rparr> True))
              (Some (BlockStatement \<lparr>Type = ''{'', Literal = ''{''\<rparr> [Some ?r])) None"
  let ?b = "BlockStatement \<lparr>Type = ''{'', Literal = ''{''\<rparr>
              [Some (ExpressionStatement \<lparr>Type = IDENT, Literal = ''x''\<rparr> None)]"
  have cs: "Statement_complete ?s" by simp
  have ce: "Expression_complete ?e" by simp
  have cb: "BlockStatement_complete ?b" by simp
  have cp: "list_all (\<lambda>x. case x of None \<Rightarrow> False | Some s \<Rightarrow> Statement_complete s) [Some ?r]"
    by simp
  from String_of_complete [where s = ?s and e = ?e and b = ?b and stmts = "[Some ?r]"]
    cs ce cb cp
  show ?thesis by blast
qed

text \<open>
  C1 (as stated) fails: a LetStatement with a nil \<^verbatim>\<open>Name\<close>, a PrefixExpression with a nil
  \<^verbatim>\<open>Right\<close>, an IfExpression with a nil \<^verbatim>\<open>Condition\<close> or a nil \<^verbatim>\<open>Consequence\<close> and a
  FunctionLiteral with a nil \<^verbatim>\<open>Body\<close> all panic in \<^verbatim>\<open>String()\<close>.
\<close>

theorem String_nil_child_counterexample:
  "Statement_String
     (LetStatement \<lparr>Type = LET, Literal = ''let''\<rparr> None
        (Some (IntegerLiteral \<lparr>Type = ''INT'', Literal = ''5''\<rparr> 5))) = Inl NilDereference \<and>
   Expression_String
     (PrefixExpression \<lparr>Type = ''-'', Literal = ''-''\<rparr> ''-'' None) = Inl NilDereference \<and>
   Expression_String
     (IfExpression \<lparr>Type = IF, Literal = ''if''\<rparr> None
        (Some (BlockStatement \<lparr>Type = ''{'', Literal = ''{''\<rparr> [])) None) = Inl NilDereference \<and>
   Expression_String
     (IfExpression \<lparr>Type = IF, Literal = ''if''\<rparr>
        (Some (Boolean \<lparr>Type = TRUE, Literal = ''true''\<rparr> True)) None None) =
     Inl NilDereference \<and>
   Expression_String
     (FunctionLiteral \<lparr>Type = FUNCTION, Literal = ''fn''\<rparr> [] None) = Inl NilDereference"
  by simp

end
